theory Spec2Isabelle
  imports Complex_Main
begin

section \<open>Python strings\<close>

text \<open>
  A Python \<open>str\<close> is a sequence of code points. The theory models the strings whose
  code points lie below 256 (ASCII and the Latin-1 supplement): one \<^typ>\<open>char\<close> is
  one code point, \<^term>\<open>ord_ch\<close> is Python's \<open>ord\<close>. The character predicates
  below are the Unicode classifications that \<open>str.isdigit\<close>, \<open>str.isalpha\<close>,
  \<open>str.isspace\<close> and \<open>str.lower\<close> apply to these code points.
\<close>

definition ord_ch :: "char \<Rightarrow> nat" where
  "ord_ch c = of_char c"

definition ascii_digit :: "char \<Rightarrow> bool" where
  "ascii_digit c = (48 \<le> ord_ch c \<and> ord_ch c \<le> 57)"

definition ascii_letter :: "char \<Rightarrow> bool" where
  "ascii_letter c = ((65 \<le> ord_ch c \<and> ord_ch c \<le> 90) \<or> (97 \<le> ord_ch c \<and> ord_ch c \<le> 122))"

text \<open>\<open>c.isdigit()\<close>: the decimal digits and the superscript digits U+00B2, U+00B3, U+00B9.\<close>

definition ch_isdigit :: "char \<Rightarrow> bool" where
  "ch_isdigit c = (ascii_digit c \<or> ord_ch c = 178 \<or> ord_ch c = 179 \<or> ord_ch c = 185)"

text \<open>\<open>c.isalpha()\<close>: the ASCII letters, U+00AA, U+00B5, U+00BA and the accented letters
  U+00C0..U+00FF without the two operators U+00D7 and U+00F7.\<close>

definition ch_isalpha :: "char \<Rightarrow> bool" where
  "ch_isalpha c = (ascii_letter c \<or> ord_ch c = 170 \<or> ord_ch c = 181 \<or> ord_ch c = 186
     \<or> (192 \<le> ord_ch c \<and> ord_ch c \<le> 214) \<or> (216 \<le> ord_ch c \<and> ord_ch c \<le> 246)
     \<or> 248 \<le> ord_ch c)"

text \<open>\<open>c.isspace()\<close>, the characters that \<open>str.strip()\<close> removes.\<close>

definition ch_isspace :: "char \<Rightarrow> bool" where
  "ch_isspace c = ((9 \<le> ord_ch c \<and> ord_ch c \<le> 13) \<or> (28 \<le> ord_ch c \<and> ord_ch c \<le> 32)
     \<or> ord_ch c = 133 \<or> ord_ch c = 160)"

definition ch_lower :: "char \<Rightarrow> char" where
  "ch_lower c = (if (65 \<le> ord_ch c \<and> ord_ch c \<le> 90) \<or> (192 \<le> ord_ch c \<and> ord_ch c \<le> 214)
        \<or> (216 \<le> ord_ch c \<and> ord_ch c \<le> 222)
     then char_of (ord_ch c + 32) else c)"

definition str_lower :: "string \<Rightarrow> string" where
  "str_lower s = map ch_lower s"

definition str_strip :: "string \<Rightarrow> string" where
  "str_strip s = rev (dropWhile ch_isspace (rev (dropWhile ch_isspace s)))"

text \<open>\<open>s.isdigit()\<close>: every character is a digit and there is at least one.\<close>

definition str_isdigit :: "string \<Rightarrow> bool" where
  "str_isdigit s = (s \<noteq> [] \<and> list_all ch_isdigit s)"

definition startswith :: "string \<Rightarrow> string \<Rightarrow> bool" where
  "startswith s p = (take (length p) s = p)"

text \<open>\<open>sub in s\<close>: \<open>sub\<close> occurs in \<open>s\<close> at some position.\<close>

fun str_contains :: "string \<Rightarrow> string \<Rightarrow> bool" where
  "str_contains sub [] = (sub = [])"
| "str_contains sub (c # cs) = (startswith (c # cs) sub \<or> str_contains sub cs)"

text \<open>\<open>any(keyword in s for keyword in keywords)\<close>\<close>

definition any_keyword :: "string list \<Rightarrow> string \<Rightarrow> bool" where
  "any_keyword keywords s = list_ex (\<lambda>keyword. str_contains keyword s) keywords"

section \<open>Rule-based document-type classification\<close>


text \<open>
  The four tests of \<open>fallback_classification\<close> that come before the cancellation
  keywords, in the source's order.
\<close>

definition trust_code :: "string \<Rightarrow> bool" where
  "trust_code dt_lower = (dt_lower \<in> set [''dt'', ''d/t'', ''d-t'', ''d-tr'', ''d-trust'', ''sub tr'',
     ''subst tr'', ''substitution trustee''])"

definition trust_with_deed :: "string \<Rightarrow> bool" where
  "trust_with_deed dt_lower = (str_contains ''trust'' dt_lower
     \<and> (str_contains ''deed'' dt_lower \<or> startswith dt_lower ''trust''))"

definition mortgage_keyword :: "string \<Rightarrow> bool" where
  "mortgage_keyword dt_lower = any_keyword [''mortgage'', ''mtge'', ''mtg'', ''morg''] dt_lower"

definition satisfaction_keyword :: "string \<Rightarrow> bool" where
  "satisfaction_keyword dt_lower =
     any_keyword [''satisfaction'', ''sat'', ''certificate of satisfaction''] dt_lower"

text \<open>The body of the loop of \<open>fallback_classification\<close>: the category of one value.\<close>

definition fallback_category :: "string \<Rightarrow> string" where
  "fallback_category doc_type =
     (let dt_lower = str_strip (str_lower doc_type) in
      if trust_code dt_lower then ''DEED_OF_TRUST''
      else if trust_with_deed dt_lower then ''DEED_OF_TRUST''
      else if mortgage_keyword dt_lower then ''MORTGAGE''
      else if satisfaction_keyword dt_lower then ''RELEASE''
      else if any_keyword [''cancellation'', ''can'', ''cancel''] dt_lower then ''RELEASE''
      else if any_keyword [''release'', ''rel'', ''partial release'', ''rel deed''] dt_lower
        then ''RELEASE''
      else if str_contains ''lien'' dt_lower \<or> dt_lower \<in> set [''judgment'', ''judgement'']
        then ''LIEN''
      else if any_keyword [''plat'', ''map plat'', ''map/r'', ''map'', ''subdivision plat''] dt_lower
        then ''PLAT''
      else if str_contains ''lease'' dt_lower then ''LEASE''
      else if any_keyword [''substitute trustee'', ''substitution trustee'', ''sub tr'',
                ''subst tr''] dt_lower
        then ''DEED_OF_TRUST''
      else if str_contains ''easement'' dt_lower \<or> str_contains ''right of way'' dt_lower
        then ''EASEMENT''
      else if any_keyword [''deed'', ''warranty'', ''quitclaim'', ''grant'', ''conveyance''] dt_lower
        then (if str_contains ''trust'' dt_lower \<or> str_contains ''trustee'' dt_lower
                then ''DEED_OF_TRUST''
              else if str_contains ''easement'' dt_lower then ''EASEMENT''
              else ''SALE_DEED'')
      else if any_keyword [''assignment'', ''asign'', ''assign''] dt_lower
        then (if str_contains ''mortgage'' dt_lower \<or> str_contains ''mtg'' dt_lower
                then ''MORTGAGE''
              else if str_contains ''trust'' dt_lower \<or> str_contains ''trustee'' dt_lower
                then ''DEED_OF_TRUST''
              else ''MISC'')
      else if any_keyword [''power of attorney'', ''poa''] dt_lower then ''MISC''
      else if any_keyword [''notice'', ''request notice'', ''see instrument''] dt_lower then ''MISC''
      else ''MISC'')"

text \<open>
  \<open>fallback_classification\<close>: the dictionary is filled in the order of the list, a later
  occurrence of a value overwriting the earlier entry.
\<close>

definition fallback_classification :: "string list \<Rightarrow> (string \<rightharpoonup> string)" where
  "fallback_classification doc_types =
     foldl (\<lambda>mapping doc_type. mapping(doc_type \<mapsto> fallback_category doc_type)) Map.empty doc_types"

section \<open>Records\<close>

text \<open>
  The values a field of a decoded record can hold, as far as the analysis looks at them:
  \<open>None\<close> (also the result of \<open>record.get\<close> for a missing key), booleans, integers
  and strings. Non-integral numbers, arrays and nested objects are left out.
\<close>

datatype pyval = PNone | PBool bool | PInt int | PStr string

text \<open>Truth value of a Python object, as tested by \<open>if book:\<close>.\<close>

fun truthy :: "pyval \<Rightarrow> bool" where
  "truthy PNone = False"
| "truthy (PBool b) = b"
| "truthy (PInt i) = (i \<noteq> 0)"
| "truthy (PStr s) = (s \<noteq> [])"

definition digit_ch :: "nat \<Rightarrow> char" where
  "digit_ch d = char_of (48 + d)"

fun nat_digits :: "nat \<Rightarrow> string" where
  "nat_digits n = (if n < 10 then [digit_ch n] else nat_digits (n div 10) @ [digit_ch (n mod 10)])"

declare nat_digits.simps [simp del]

definition str_of_int :: "int \<Rightarrow> string" where
  "str_of_int i = (if i < 0 then CHR ''-'' # nat_digits (nat (- i)) else nat_digits (nat i))"

text \<open>\<open>str(v)\<close>\<close>

fun py_str :: "pyval \<Rightarrow> string" where
  "py_str PNone = ''None''"
| "py_str (PBool b) = (if b then ''True'' else ''False'')"
| "py_str (PInt i) = str_of_int i"
| "py_str (PStr s) = s"

text \<open>
  A record of the data model, with the fields the analysis reads. The source converts
  \<open>book\<close> and \<open>page\<close> with \<open>str\<close> and tests \<open>instrument_number\<close> with \<open>isinstance\<close>,
  so these three fields hold any value; \<open>date\<close> and \<open>doc_type\<close> are strings or absent.
\<close>

record prop_record =
  instrument_number :: pyval
  book :: pyval
  page :: pyval
  date :: "string option"
  doc_type :: "string option"

definition blank_record :: prop_record where
  "blank_record = \<lparr>instrument_number = PNone, book = PNone, page = PNone, date = None,
     doc_type = None\<rparr>"

section \<open>Book and page characterization\<close>

text \<open>Comparison of strings by code point, Python's \<open><\<close> on \<open>str\<close>.\<close>

fun str_less :: "string \<Rightarrow> string \<Rightarrow> bool" where
  "str_less [] [] = False"
| "str_less [] (y # ys) = True"
| "str_less (x # xs) [] = False"
| "str_less (x # xs) (y # ys) = (ord_ch x < ord_ch y \<or> (x = y \<and> str_less xs ys))"

text \<open>\<open>(len(a), a) < (len(b), b)\<close>: the order of the key \<open>lambda x: (len(x), x)\<close>.\<close>

definition key_less :: "string \<Rightarrow> string \<Rightarrow> bool" where
  "key_less a b = (length a < length b \<or> (length a = length b \<and> str_less a b))"

text \<open>
  \<open>min(vals, key=...)\<close> and \<open>max(vals, key=...)\<close>: the first element keeps its place until
  a later one has a strictly smaller (strictly greater) key. The empty list, on which
  Python raises, gives \<open>None\<close>; the source guards both calls with \<open>if books\<close>, whose
  other branch is \<open>None\<close> as well.
\<close>

definition min_value_of :: "string list \<Rightarrow> string option" where
  "min_value_of vals = (case vals of [] \<Rightarrow> None
     | v # rest \<Rightarrow> Some (foldl (\<lambda>best x. if key_less x best then x else best) v rest))"

definition max_value_of :: "string list \<Rightarrow> string option" where
  "max_value_of vals = (case vals of [] \<Rightarrow> None
     | v # rest \<Rightarrow> Some (foldl (\<lambda>best x. if key_less best x then x else best) v rest))"

record field_patterns =
  field :: string
  is_numeric :: bool
  has_letters :: bool
  min_value :: "string option"
  max_value :: "string option"
  unique_count :: nat
  total_count :: nat

text \<open>The dictionary that \<open>analyze_book_page_patterns\<close> builds for one field.\<close>

definition patterns_of_field :: "string \<Rightarrow> string list \<Rightarrow> field_patterns" where
  "patterns_of_field name vals = \<lparr>field = name,
     is_numeric = list_all str_isdigit vals,
     has_letters = list_ex (\<lambda>b. \<not> str_isdigit b) vals,
     min_value = min_value_of vals,
     max_value = max_value_of vals,
     unique_count = length (remdups vals),
     total_count = length vals\<rparr>"

definition books_of :: "prop_record list \<Rightarrow> string list" where
  "books_of records = map (\<lambda>r. py_str (book r)) (filter (\<lambda>r. truthy (book r)) records)"

definition pages_of :: "prop_record list \<Rightarrow> string list" where
  "pages_of records = map (\<lambda>r. py_str (page r)) (filter (\<lambda>r. truthy (page r)) records)"

definition analyze_book_page_patterns :: "prop_record list \<Rightarrow> field_patterns list" where
  "analyze_book_page_patterns records =
     (let books = books_of records; pages = pages_of records in
      (if books \<noteq> [] then [patterns_of_field ''book'' books] else [])
      @ (if pages \<noteq> [] then [patterns_of_field ''page'' pages] else []))"

section \<open>Building the document-type mapping\<close>

datatype py_exception = ImportError | ValueError | TypeError | AttributeError | OverflowError
  | OtherException



















section \<open>Reading the line-delimited input\<close>

text \<open>
  A decoded JSON document. \<open>json.loads\<close> belongs to the standard library and is a
  parameter of the model: a function from the text of a line to the decoded document, or
  to \<open>None\<close> where \<open>json.loads\<close> raises \<open>JSONDecodeError\<close>.
\<close>

datatype json = JNull | JBool bool | JNum int | JStr string | JArr "json list"
  | JObj "(string \<times> json) list"

fun is_mapping :: "json \<Rightarrow> bool" where
  "is_mapping (JObj members) = True"
| "is_mapping v = False"

text \<open>
  What a consumer of the generator sees: the values yielded, in order, and the line
  numbers for which a warning was logged.
\<close>

record stream_output =
  yielded :: "json list"
  warned_lines :: "nat list"

text \<open>
  The loop of \<open>stream_jsonl\<close> from line number \<open>line_num\<close> on; \<open>enumerate(f, 1)\<close>
  starts the count at 1.
\<close>

fun stream_from :: "(string \<Rightarrow> json option) \<Rightarrow> nat \<Rightarrow> string list \<Rightarrow> stream_output" where
  "stream_from loads line_num [] = \<lparr>yielded = [], warned_lines = []\<rparr>"
| "stream_from loads line_num (line # rest) =
     (let stripped = str_strip line;
          out = stream_from loads (line_num + 1) rest
      in if stripped = [] then out
         else (case loads stripped of
                 Some v \<Rightarrow> out\<lparr>yielded := v # yielded out\<rparr>
               | None \<Rightarrow> out\<lparr>warned_lines := line_num # warned_lines out\<rparr>))"

definition stream_jsonl :: "(string \<Rightarrow> json option) \<Rightarrow> string list \<Rightarrow> stream_output" where
  "stream_jsonl loads file_lines = stream_from loads 1 file_lines"

text \<open>
  The answers of \<open>json.loads\<close> on the two lines used as examples below: the number
  \<open>42\<close> and the object \<open>{"county": "wake"}\<close>.
\<close>

definition loads_examples :: "string \<Rightarrow> json option" where
  "loads_examples s =
     (if s = ''42'' then Some (JNum 42)
      else if s = ''{\"county\": \"wake\"}'' then Some (JObj [(''county'', JStr ''wake'')])
      else None)"

section \<open>Dates\<close>

text \<open>
  A \<open>datetime\<close> object: its calendar fields and, for an aware object, the offset of its
  time zone from UTC in seconds (\<open>None\<close> for a naive object).
\<close>

record datetime =
  year :: int
  month :: int
  day :: int
  hour :: int
  minute :: int
  second :: int
  microsecond :: int
  utcoffset :: "int option"

definition is_leap :: "int \<Rightarrow> bool" where
  "is_leap y = (y mod 4 = 0 \<and> (y mod 100 \<noteq> 0 \<or> y mod 400 = 0))"



text \<open>The proleptic Gregorian ordinal of a day, \<open>toordinal()\<close>: 1 for 0001-01-01.\<close>

definition days_before_year :: "int \<Rightarrow> int" where
  "days_before_year y = (y - 1) * 365 + (y - 1) div 4 - (y - 1) div 100 + (y - 1) div 400"

definition days_before_month :: "int \<Rightarrow> int \<Rightarrow> int" where
  "days_before_month y m =
     [0, 0, 31, 59, 90, 120, 151, 181, 212, 243, 273, 304, 334] ! nat m
     + (if 2 < m \<and> is_leap y then 1 else 0)"

definition toordinal :: "datetime \<Rightarrow> int" where
  "toordinal dt = days_before_year (year dt) + days_before_month (year dt) (month dt) + day dt"

definition to_microseconds :: "datetime \<Rightarrow> int" where
  "to_microseconds dt =
     ((toordinal dt * 86400 + hour dt * 3600 + minute dt * 60 + second dt) * 1000000
      + microsecond dt)"

text \<open>
  \<open>(a - b).days\<close> for two naive objects: the difference is normalized to whole days plus
  a non-negative rest, so the days are the floor.
\<close>

definition timedelta_days :: "datetime \<Rightarrow> datetime \<Rightarrow> int" where
  "timedelta_days a b = (to_microseconds a - to_microseconds b) div (86400 * 1000000)"

text \<open>\<open>a < b\<close> for two naive objects: the fields are compared from the year down.\<close>

fun lex_less :: "int list \<Rightarrow> int list \<Rightarrow> bool" where
  "lex_less (x # xs) (y # ys) = (x < y \<or> (x = y \<and> lex_less xs ys))"
| "lex_less xs ys = False"

definition dt_fields :: "datetime \<Rightarrow> int list" where
  "dt_fields dt = [year dt, month dt, day dt, hour dt, minute dt, second dt, microsecond dt]"

definition dt_less :: "datetime \<Rightarrow> datetime \<Rightarrow> bool" where
  "dt_less a b = lex_less (dt_fields a) (dt_fields b)"

text \<open>
  What the analysis takes from the \<open>datetime\<close> and \<open>dateutil\<close> libraries and from the
  clock. \<open>strptime s fmt\<close> is \<open>None\<close> where \<open>datetime.strptime\<close> raises
  \<open>ValueError\<close>; \<open>dateutil_parse\<close> raises \<open>ImportError\<close> where the package is
  missing; \<open>fromisoformat\<close> gives the message of its \<open>ValueError\<close> on the left;
  \<open>now\<close> is the naive object that \<open>datetime.now()\<close> returns.
\<close>

record date_library =
  strptime :: "string \<Rightarrow> string \<Rightarrow> datetime option"
  dateutil_parse :: "string \<Rightarrow> py_exception + datetime"
  isoformat :: "datetime \<Rightarrow> string"
  fromisoformat :: "string \<Rightarrow> string + datetime"
  now :: datetime

definition formats :: "string list" where
  "formats = [''%Y-%m-%dT%H:%M:%S'', ''%Y-%m-%dT%H:%M:%S%z'', ''%Y-%m-%dT%H:%M:%SZ'',
     ''%Y-%m-%dT%H:%M:%S.%f'', ''%Y-%m-%dT%H:%M:%S.%f%z'', ''%Y-%m-%d'', ''%Y/%m/%d'',
     ''%m/%d/%Y'', ''%m/%d/%Y %I:%M:%S %p'', ''%m/%d/%Y %I:%M:%S %p'', ''%m/%d/%Y %H:%M:%S'',
     ''%m/%d/%Y %I:%M %p'', ''%m/%d/%Y %H:%M'']"

text \<open>The loop over the formats: the first one that parses wins.\<close>

fun try_formats :: "date_library \<Rightarrow> string \<Rightarrow> string list \<Rightarrow> datetime option" where
  "try_formats lib date_str [] = None"
| "try_formats lib date_str (fmt # fmts) =
     (case strptime lib date_str fmt of
        Some dt \<Rightarrow> Some dt
      | None \<Rightarrow> try_formats lib date_str fmts)"

text \<open>
  \<open>parse_date\<close>: \<open>Inr None\<close> is the return value \<open>None\<close>, \<open>Inl e\<close> an exception
  that leaves the function. Of the exceptions of the \<open>dateutil\<close> parser the handler
  catches \<open>ImportError\<close> and \<open>ValueError\<close>.
\<close>

definition parse_date :: "date_library \<Rightarrow> string \<Rightarrow> py_exception + string option" where
  "parse_date lib date_str =
     (if date_str = [] then Inr None
      else (case try_formats lib date_str formats of
              Some dt \<Rightarrow> Inr (Some (isoformat lib dt))
            | None \<Rightarrow>
                (case dateutil_parse lib date_str of
                   Inr dt \<Rightarrow> Inr (Some (isoformat lib dt))
                 | Inl e \<Rightarrow> if e = ImportError \<or> e = ValueError then Inr None else Inl e)))"

text \<open>\<open>s.replace(old, new)\<close> for a non-empty \<open>old\<close>: the occurrences from left to right.\<close>

fun str_replace :: "string \<Rightarrow> string \<Rightarrow> string \<Rightarrow> string" where
  "str_replace old new [] = []"
| "str_replace old new (c # cs) =
     (if old \<noteq> [] \<and> startswith (c # cs) old
      then new @ str_replace old new (drop (length old) (c # cs))
      else c # str_replace old new cs)"

datatype anomaly = FutureDate string int | VeryOldDate string int | ParseError string string

record date_range =
  earliest :: "string option"
  latest :: "string option"
  anomalies :: "anomaly list"

text \<open>
  The string handed to \<open>datetime.fromisoformat\<close>: a trailing \<open>Z\<close> is spelled as an
  offset when the string has a time part.
\<close>

definition iso_argument :: "string \<Rightarrow> string" where
  "iso_argument parsed_date =
     (if str_contains ''T'' parsed_date then str_replace ''Z'' ''+00:00'' parsed_date
      else parsed_date)"

text \<open>
  The body of the loop of \<open>analyze_date_ranges\<close> for one record, on the two lists
  \<open>dates\<close> and \<open>anomalies\<close>. Comparing an aware object with the naive \<open>today\<close> raises
  \<open>TypeError\<close>, which the handler for \<open>ValueError\<close> and \<open>AttributeError\<close> lets
  through; the object appended to \<open>dates\<close> just before is lost with the call.
\<close>

definition date_step ::
  "date_library \<Rightarrow> datetime list \<times> anomaly list \<Rightarrow> prop_record
     \<Rightarrow> py_exception + datetime list \<times> anomaly list" where
  "date_step lib acc r =
     (case date r of
        None \<Rightarrow> Inr acc
      | Some date_str \<Rightarrow>
          if date_str = [] then Inr acc
          else (case parse_date lib date_str of
                  Inl e \<Rightarrow> Inl e
                | Inr None \<Rightarrow> Inr acc
                | Inr (Some parsed_date) \<Rightarrow>
                    if parsed_date = [] then Inr acc
                    else (case fromisoformat lib (iso_argument parsed_date) of
                            Inl msg \<Rightarrow> Inr (fst acc, snd acc @ [ParseError parsed_date msg])
                          | Inr dt \<Rightarrow>
                              if utcoffset dt \<noteq> None then Inl TypeError
                              else
                                let today = now lib;
                                    future =
                                      (if dt_less today dt
                                       then (let days_ahead = timedelta_days dt today
                                             in if days_ahead > 1
                                                then [FutureDate parsed_date days_ahead]
                                                else [])
                                       else []);
                                    old = (if year dt < 1800
                                           then [VeryOldDate parsed_date (year dt)] else [])
                                in Inr (fst acc @ [dt], snd acc @ future @ old))))"

fun date_loop ::
  "date_library \<Rightarrow> datetime list \<times> anomaly list \<Rightarrow> prop_record list
     \<Rightarrow> py_exception + datetime list \<times> anomaly list" where
  "date_loop lib acc [] = Inr acc"
| "date_loop lib acc (r # rest) =
     (case date_step lib acc r of
        Inl e \<Rightarrow> Inl e
      | Inr acc' \<Rightarrow> date_loop lib acc' rest)"

text \<open>\<open>min(dates)\<close> and \<open>max(dates)\<close> of a non-empty list of naive objects.\<close>

definition dt_min :: "datetime \<Rightarrow> datetime list \<Rightarrow> datetime" where
  "dt_min d ds = foldl (\<lambda>best x. if dt_less x best then x else best) d ds"

definition dt_max :: "datetime \<Rightarrow> datetime list \<Rightarrow> datetime" where
  "dt_max d ds = foldl (\<lambda>best x. if dt_less best x then x else best) d ds"

definition analyze_date_ranges :: "date_library \<Rightarrow> prop_record list \<Rightarrow> py_exception + date_range" where
  "analyze_date_ranges lib records =
     (case date_loop lib ([], []) records of
        Inl e \<Rightarrow> Inl e
      | Inr (dates, anoms) \<Rightarrow>
          (case dates of
             [] \<Rightarrow> Inr \<lparr>earliest = None, latest = None, anomalies = anoms\<rparr>
           | d # ds \<Rightarrow> Inr \<lparr>earliest = Some (isoformat lib (dt_min d ds)),
                             latest = Some (isoformat lib (dt_max d ds)),
                             anomalies = anoms\<rparr>))"




text \<open>
  A library for the examples: the answers of \<open>strptime\<close>, \<open>isoformat\<close> and
  \<open>fromisoformat\<close> on four strings in ISO form, three naive and one with an offset, on a
  machine without the \<open>dateutil\<close> package whose clock shows 2024-01-01T00:00:00.
\<close>

definition naive :: "int \<Rightarrow> int \<Rightarrow> int \<Rightarrow> int \<Rightarrow> int \<Rightarrow> int \<Rightarrow> datetime" where
  "naive y m d h mi s = \<lparr>year = y, month = m, day = d, hour = h, minute = mi, second = s,
     microsecond = 0, utcoffset = None\<rparr>"

definition example_dates :: "(string \<times> datetime) list" where
  "example_dates = [
     (''2024-01-01T12:00:00'', naive 2024 1 1 12 0 0),
     (''2024-01-02T12:00:00'', naive 2024 1 2 12 0 0),
     (''2024-01-03T00:00:00'', naive 2024 1 3 0 0 0),
     (''2020-01-01T00:00:00+00:00'', (naive 2020 1 1 0 0 0)\<lparr>utcoffset := Some 0\<rparr>)]"

definition example_library :: date_library where
  "example_library = \<lparr>
     strptime = (\<lambda>s fmt.
       case map_of example_dates s of
         None \<Rightarrow> None
       | Some dt \<Rightarrow>
           if utcoffset dt = None \<and> fmt = ''%Y-%m-%dT%H:%M:%S'' then Some dt
           else if utcoffset dt \<noteq> None \<and> fmt = ''%Y-%m-%dT%H:%M:%S%z'' then Some dt
           else None),
     dateutil_parse = (\<lambda>s. Inl ImportError),
     isoformat = (\<lambda>dt. case filter (\<lambda>e. snd e = dt) example_dates of
                         [] \<Rightarrow> ''''
                       | e # es \<Rightarrow> fst e),
     fromisoformat = (\<lambda>s. case map_of example_dates s of
                             None \<Rightarrow> Inl ''Invalid isoformat string''
                           | Some dt \<Rightarrow> Inr dt),
     now = naive 2024 1 1 0 0 0\<rparr>"

section \<open>Instrument-number patterns\<close>

abbreviation bslash :: char where
  "bslash \<equiv> CHR 0x5C"

text \<open>The two class tokens of the shape key, \<open>'\\d'\<close> and \<open>'[A-Za-z]'\<close>.\<close>

definition digit_token :: string where
  "digit_token = [bslash, CHR ''d'']"

definition letter_token :: string where
  "letter_token = ''[A-Za-z]''"

definition escaped_chars :: "char list" where
  "escaped_chars = [CHR ''-'', CHR ''.'', CHR ''/'', CHR ''_'', CHR ''('', CHR '')'', CHR ''{'',
     CHR ''}'', CHR ''['', CHR '']'', CHR ''*'', CHR ''+'', CHR ''?'', CHR ''^'', CHR ''$'',
     CHR ''|'', bslash]"

text \<open>What the inner loop appends to \<open>pattern_parts\<close> for one character.\<close>

definition pattern_part :: "char \<Rightarrow> string" where
  "pattern_part c =
     (if ch_isdigit c then digit_token
      else if ch_isalpha c then letter_token
      else if c \<in> set escaped_chars then [bslash, c]
      else [c])"

definition pattern_of :: "string \<Rightarrow> string" where
  "pattern_of instr_num = concat (map pattern_part instr_num)"

text \<open>
  The values of \<open>instrument_number\<close> that the first loop keeps: non-empty strings.
\<close>

definition instrument_numbers_of :: "prop_record list \<Rightarrow> string list" where
  "instrument_numbers_of records =
     concat (map (\<lambda>r. case instrument_number r of
                          PStr s \<Rightarrow> if s \<noteq> [] then [s] else []
                        | _ \<Rightarrow> []) records)"















text \<open>The records whose only field is the given instrument number.\<close>

definition instrument_records :: "string list \<Rightarrow> prop_record list" where
  "instrument_records instrument_numbers =
     map (\<lambda>s. blank_record\<lparr>instrument_number := PStr s\<rparr>) instrument_numbers"



text \<open>
  The strings of the input that belong to the shape key \<open>p\<close>: those without the prefix
  \<open>bp\<close> whose pattern is \<open>p\<close>, in the order of the input.
\<close>

definition members :: "string list \<Rightarrow> string \<Rightarrow> string list" where
  "members nums p = filter (\<lambda>s. \<not> startswith s ''bp'' \<and> pattern_of s = p) nums"

section \<open>Matching the generated expressions\<close>

text \<open>
  The regular expressions are strings that the program emits and never applies; what
  they accept is fixed by the syntax of Python's \<open>re\<close> module. The model reads the part
  of that syntax in which the program writes: literal characters, a backslash before a
  character that is no ASCII letter or digit (the character itself), \<open>\d\<close> (a decimal
  digit; among the code points below 256 these are \<open>0\<close> to \<open>9\<close>), the class
  \<open>[A-Za-z]\<close>, a repetition count \<open>{n}\<close> behind any of these, \<open>^\<close> in front and \<open>$\<close> at the
  end. Any other expression is outside the model (\<open>None\<close>). An expression accepts a
  string when it matches the whole of it, as \<open>re.fullmatch\<close> decides.
\<close>

datatype re_atom = AnyDigit | AnyLetter | Literal char

fun atom_accepts :: "re_atom \<Rightarrow> char \<Rightarrow> bool" where
  "atom_accepts AnyDigit c = ascii_digit c"
| "atom_accepts AnyLetter c = ascii_letter c"
| "atom_accepts (Literal x) c = (c = x)"








text \<open>
  The string \<open>s'\<close> has the shape of \<open>s\<close> in ASCII: position by position a decimal digit
  \<open>0\<close>-\<open>9\<close> where \<open>s\<close> has a digit, a letter \<open>A\<close>-\<open>Z\<close> or \<open>a\<close>-\<open>z\<close> where \<open>s\<close> has a
  letter, and the same character elsewhere.
\<close>

definition conforms_ch :: "char \<Rightarrow> char \<Rightarrow> bool" where
  "conforms_ch c c' =
     (if ch_isdigit c then ascii_digit c' else if ch_isalpha c then ascii_letter c' else c' = c)"




section \<open>Properties of the rule cascade\<close>

lemma fallback_classification_snoc:
  "fallback_classification (doc_types @ [d]) = (fallback_classification doc_types)(d \<mapsto> fallback_category d)"
  by (simp add: fallback_classification_def)

lemma fallback_classification_lookup:
  "fallback_classification doc_types d = (if d \<in> set doc_types then Some (fallback_category d) else None)"
proof (induction doc_types rule: rev_induct)
  case Nil
  show ?case by (simp add: fallback_classification_def)
next
  case (snoc x xs)
  then show ?case by (simp add: fallback_classification_snoc)
qed

lemma lower_AMERICAN: "str_strip (str_lower ''AMERICAN'') = ''american''"
  by code_simp

text \<open>
  Claim C10. A value whose lower-cased, trimmed form contains \<open>can\<close> and passes the four
  earlier tests (exact trust codes, trust with deed, mortgage keywords, satisfaction
  keywords) is mapped to \<open>RELEASE\<close>, whatever it means; \<open>AMERICAN\<close> is such a value, and
  \<open>fallback_classification ["AMERICAN"]\<close> maps it to \<open>RELEASE\<close>.
\<close>

theorem can_substring_is_release:
  "(\<forall>doc_types doc_type. doc_type \<in> set doc_types
       \<and> str_contains ''can'' (str_strip (str_lower doc_type))
       \<and> \<not> trust_code (str_strip (str_lower doc_type))
       \<and> \<not> trust_with_deed (str_strip (str_lower doc_type))
       \<and> \<not> mortgage_keyword (str_strip (str_lower doc_type))
       \<and> \<not> satisfaction_keyword (str_strip (str_lower doc_type))
     \<longrightarrow> fallback_classification doc_types doc_type = Some ''RELEASE'')
   \<and> fallback_classification [''AMERICAN''] ''AMERICAN'' = Some ''RELEASE''"
proof (intro conjI allI impI)
  fix doc_types doc_type
  assume h: "doc_type \<in> set doc_types
       \<and> str_contains ''can'' (str_strip (str_lower doc_type))
       \<and> \<not> trust_code (str_strip (str_lower doc_type))
       \<and> \<not> trust_with_deed (str_strip (str_lower doc_type))
       \<and> \<not> mortgage_keyword (str_strip (str_lower doc_type))
       \<and> \<not> satisfaction_keyword (str_strip (str_lower doc_type))"
  then have "fallback_category doc_type = ''RELEASE''"
    by (simp add: fallback_category_def Let_def any_keyword_def)
  with h show "fallback_classification doc_types doc_type = Some ''RELEASE''"
    by (simp add: fallback_classification_lookup)
next
  have "fallback_category ''AMERICAN'' = ''RELEASE''"
    unfolding fallback_category_def Let_def lower_AMERICAN
    by (simp add: trust_code_def trust_with_deed_def mortgage_keyword_def satisfaction_keyword_def
        any_keyword_def startswith_def)
  then show "fallback_classification [''AMERICAN''] ''AMERICAN'' = Some ''RELEASE''"
    by (simp add: fallback_classification_lookup)
qed

theorem can_substring_is_release_witness:
  "str_contains ''can'' (str_strip (str_lower ''Canal Map''))
   \<and> fallback_classification [''Canal Map''] ''Canal Map'' = Some ''RELEASE''"
proof -
  have l: "str_strip (str_lower ''Canal Map'') = ''canal map''"
    by code_simp
  have c: "str_contains ''can'' ''canal map''"
    by (simp add: startswith_def)
  have n: "\<not> trust_code ''canal map'' \<and> \<not> trust_with_deed ''canal map''
      \<and> \<not> mortgage_keyword ''canal map'' \<and> \<not> satisfaction_keyword ''canal map''"
    by (simp add: trust_code_def trust_with_deed_def mortgage_keyword_def satisfaction_keyword_def
        any_keyword_def startswith_def)
  from can_substring_is_release l c n
  have "fallback_classification [''Canal Map''] ''Canal Map'' = Some ''RELEASE''"
    by simp
  with l c show ?thesis by simp
qed

section \<open>Properties of the book and page characterization\<close>

subsection \<open>The order of the keys\<close>

lemma str_less_irrefl: "\<not> str_less a a" by (induction a) auto
lemma key_less_irrefl: "\<not> key_less a a" by (simp add: key_less_def str_less_irrefl)





subsection \<open>Minimum and maximum\<close>



subsection \<open>Values and their string form\<close>

lemma nat_digits_nonempty: "nat_digits n \<noteq> []"
  by (subst nat_digits.simps) simp

lemma py_str_truthy_nonempty: "truthy v \<Longrightarrow> py_str v \<noteq> []"
  by (cases v) (auto simp: str_of_int_def nat_digits_nonempty)

lemma books_of_concat: "books_of records = concat (map (\<lambda>r. if truthy (book r) then [py_str (book r)] else []) records)"
  by (induction records) (auto simp: books_of_def)

lemma pages_of_concat: "pages_of records = concat (map (\<lambda>r. if truthy (page r) then [py_str (page r)] else []) records)"
  by (induction records) (auto simp: pages_of_def)

lemma map_update_same: "i < length xs \<Longrightarrow> f y = f (xs ! i) \<Longrightarrow> map f (xs[i := y]) = map f xs"
  by (simp add: map_update list_update_same_conv)

lemma books_of_str_book:
  assumes "i < length records" "truthy (book (records ! i))"
  shows "books_of (records[i := (records ! i)\<lparr>book := PStr (py_str (book (records ! i)))\<rparr>]) = books_of records"
    and "pages_of (records[i := (records ! i)\<lparr>book := PStr (py_str (book (records ! i)))\<rparr>]) = pages_of records"
  using assms by (simp_all add: books_of_concat pages_of_concat map_update_same py_str_truthy_nonempty)

lemma pages_of_str_page:
  assumes "i < length records" "truthy (page (records ! i))"
  shows "books_of (records[i := (records ! i)\<lparr>page := PStr (py_str (page (records ! i)))\<rparr>]) = books_of records"
    and "pages_of (records[i := (records ! i)\<lparr>page := PStr (py_str (page (records ! i)))\<rparr>]) = pages_of records"
  using assms by (simp_all add: books_of_concat pages_of_concat map_update_same py_str_truthy_nonempty)

text \<open>
  Claim C8, as the code has it. A value that passes the test \<open>if book:\<close> (a non-zero
  number, \<open>True\<close>, a non-empty string) can be replaced by its string form in any record
  without changing the result; likewise for \<open>page\<close>.
\<close>

theorem str_of_truthy_value_classifies_alike:
  "i < length records \<Longrightarrow>
     (truthy (book (records ! i)) \<longrightarrow>
        analyze_book_page_patterns (records[i := (records ! i)\<lparr>book := PStr (py_str (book (records ! i)))\<rparr>])
          = analyze_book_page_patterns records)
   \<and> (truthy (page (records ! i)) \<longrightarrow>
        analyze_book_page_patterns (records[i := (records ! i)\<lparr>page := PStr (py_str (page (records ! i)))\<rparr>])
          = analyze_book_page_patterns records)"
  by (simp add: analyze_book_page_patterns_def books_of_str_book pages_of_str_page)

theorem str_of_truthy_value_classifies_alike_witness:
  "truthy (PInt 12) \<and> py_str (PInt 12) = ''12''
   \<and> analyze_book_page_patterns [blank_record\<lparr>book := PInt 12\<rparr>, blank_record\<lparr>book := PStr ''12''\<rparr>]
     = analyze_book_page_patterns [blank_record\<lparr>book := PInt 12\<rparr>, blank_record\<lparr>book := PInt 12\<rparr>]"
proof -
  have s: "str_of_int 12 = ''12''"
    by code_simp
  from str_of_truthy_value_classifies_alike
    [of 1 "[blank_record\<lparr>book := PInt 12\<rparr>, blank_record\<lparr>book := PInt 12\<rparr>]"]
  show ?thesis
    by (simp add: blank_record_def s)
qed

text \<open>
  The claim as stated fails for the number 0: the test \<open>if book:\<close> drops it before it is
  converted, while the string \<open>"0"\<close> is counted.
\<close>

theorem zero_and_its_string_classify_differently:
  "analyze_book_page_patterns [blank_record\<lparr>book := PStr (py_str (PInt 0))\<rparr>]
     \<noteq> analyze_book_page_patterns [blank_record\<lparr>book := PInt 0\<rparr>]"
  by (simp add: analyze_book_page_patterns_def books_of_def pages_of_def blank_record_def str_of_int_def nat_digits_nonempty)

section \<open>Properties of the document-type mapping\<close>


















section \<open>Properties of the date analysis\<close>

subsection \<open>The calendar\<close>

























subsection \<open>The anomalies collected by the loop\<close>














text \<open>
  Claim C5. The date string \<open>2020-01-01T00:00:00+00:00\<close> carries an offset; the second
  format of \<open>parse_date\<close> reads it, the second parse returns an aware object, and the
  comparison with the naive current instant raises \<open>TypeError\<close>, which
  \<open>analyze_date_ranges\<close> does not catch: the call returns no summary.
\<close>

theorem aware_date_raises_type_error:
  "parse_date example_library ''2020-01-01T00:00:00+00:00'' = Inr (Some ''2020-01-01T00:00:00+00:00'')
   \<and> analyze_date_ranges example_library [blank_record\<lparr>date := Some ''2020-01-01T00:00:00+00:00''\<rparr>]
       = Inl TypeError"
  by code_simp

section \<open>Properties of the record stream\<close>

text \<open>
  Claim C6. A line whose text decodes to a JSON value that is not an object, such as the
  line \<open>42\<close>, is yielded as it is, without a warning: not every yielded value is a
  mapping.
\<close>

theorem stream_jsonl_yields_non_mapping:
  "str_strip line \<noteq> [] \<Longrightarrow> loads (str_strip line) = Some v \<Longrightarrow> \<not> is_mapping v \<Longrightarrow>
   stream_jsonl loads [line] = \<lparr>yielded = [v], warned_lines = []\<rparr>"
  by (simp add: stream_jsonl_def Let_def)

theorem stream_jsonl_yields_non_mapping_witness:
  "str_strip ''42'' = ''42'' \<and> loads_examples ''42'' = Some (JNum 42) \<and> \<not> is_mapping (JNum 42)
   \<and> stream_jsonl loads_examples [''42''] = \<lparr>yielded = [JNum 42], warned_lines = []\<rparr>"
proof -
  have s: "str_strip ''42'' = ''42''"
    by code_simp
  have l: "loads_examples ''42'' = Some (JNum 42)"
    by (simp add: loads_examples_def)
  from stream_jsonl_yields_non_mapping [of "''42''" loads_examples "JNum 42"] s l
  show ?thesis by simp
qed

section \<open>Properties of the instrument-number patterns\<close>

subsection \<open>Characters\<close>











subsection \<open>Replacing tokens\<close>


lemma startswith_Nil: "startswith X []"
  by (simp add: startswith_def)


lemma startswith_append: "startswith (p @ X) p"
  by (simp add: startswith_def)






subsection \<open>The readable signature\<close>









subsection \<open>The groups\<close>












lemma instrument_numbers_of_records [simp]:
  "instrument_numbers_of (instrument_records nums) = filter (\<lambda>s. s \<noteq> []) nums"
  by (induction nums) (simp_all add: instrument_numbers_of_def instrument_records_def blank_record_def)

subsection \<open>What the readable pattern shows\<close>




subsection \<open>Counts and percentages\<close>















subsection \<open>The expression built from a shape key\<close>






















subsection \<open>Reading the expression\<close>











subsection \<open>Repetition counts\<close>








subsection \<open>Matching\<close>






lemma accepts_digit: "ch_isdigit c \<Longrightarrow> atom_accepts AnyDigit c' \<longleftrightarrow> conforms_ch c c'"
  by (simp add: conforms_ch_def)











subsection \<open>What the generated expression accepts\<close>














end
